theory Spec2Isabelle
  imports Main
begin

section \<open>Telemetry calls shared by both middlewares\<close>

text \<open>
  The middlewares talk to the OpenTelemetry API only through calls on a span handle and
  on metric instruments. Each source function is embedded as a function that returns the
  list of telemetry calls it issues, in program order. A span is named by the handle the
  tracer returned for it; \<open>trace.SpanFromContext\<close> on a context without a span gives the
  no-op span, on which every call is without effect.
\<close>

datatype Value = StringValue string | IntValue int

type_synonym KeyValue = "string \<times> Value"

datatype SpanKind = SpanKindServer | SpanKindClient

datatype codes_Code = codes_Unset | codes_Error | codes_Ok

text \<open>
  A recorded number: an \<open>int64\<close>, or the \<open>float64\<close> quotient
  \<open>float64(d) / float64(time.Millisecond)\<close> of a duration \<open>d\<close>, kept as the
  nanosecond count \<open>d\<close>.
\<close>

datatype number = Int64 int | ElapsedMs int

datatype instrument_kind = Float64Histogram | Int64Histogram | Int64UpDownCounter

datatype effect =
    MeterCreate instrument_kind string string
  | Handle string
  | SpanStart nat string SpanKind "KeyValue list"
  | SpanSetStatus nat codes_Code string
  | SpanSetAttributes nat "KeyValue list"
  | SpanEnd nat
  | Record string number "KeyValue list"
  | Add string int "KeyValue list"

text \<open>
  An instrument held by a configuration: the one the meter created (kind, name, unit), or
  the no-op instrument substituted when creation failed.
\<close>

datatype instrument = Instrument instrument_kind string string | NoopInstrument

text \<open>
  What a meter answers to a creation request: an instrument and no error, an instrument
  together with an error, or no instrument and an error.
\<close>

datatype meter_result = Created | CreatedWithError string | Failed string

type_synonym Meter = "instrument_kind \<Rightarrow> string \<Rightarrow> string \<Rightarrow> meter_result"

text \<open>
  The block repeated for every instrument in \<open>newConfig\<close> and \<open>Tracing\<close>:
  \<^verbatim>\<open>x, err = meter.Kind(name, ...); if err != nil { otel.Handle(err); if x == nil { x = noop } }\<close>
\<close>

definition create_instrument ::
  "Meter \<Rightarrow> instrument_kind \<Rightarrow> string \<Rightarrow> string \<Rightarrow> instrument \<times> effect list" where
  "create_instrument meter k n u =
     (case meter k n u of
        Created \<Rightarrow> (Instrument k n u, [MeterCreate k n u])
      | CreatedWithError e \<Rightarrow> (Instrument k n u, [MeterCreate k n u, Handle e])
      | Failed e \<Rightarrow> (NoopInstrument, [MeterCreate k n u, Handle e]))"

definition instrument_Record :: "instrument \<Rightarrow> number \<Rightarrow> KeyValue list \<Rightarrow> effect list" where
  "instrument_Record i v attrs =
     (case i of Instrument k n u \<Rightarrow> [Record n v attrs] | NoopInstrument \<Rightarrow> [])"

definition instrument_Add :: "instrument \<Rightarrow> int \<Rightarrow> KeyValue list \<Rightarrow> effect list" where
  "instrument_Add i v attrs =
     (case i of Instrument k n u \<Rightarrow> [Add n v attrs] | NoopInstrument \<Rightarrow> [])"

text \<open>Calls on the span of a context; the no-op span (\<open>None\<close>) absorbs them.\<close>

definition span_SetStatus :: "nat option \<Rightarrow> codes_Code \<Rightarrow> string \<Rightarrow> effect list" where
  "span_SetStatus span c msg = (case span of Some i \<Rightarrow> [SpanSetStatus i c msg] | None \<Rightarrow> [])"

definition span_SetAttributes :: "nat option \<Rightarrow> KeyValue list \<Rightarrow> effect list" where
  "span_SetAttributes span kvs = (case span of Some i \<Rightarrow> [SpanSetAttributes i kvs] | None \<Rightarrow> [])"

definition span_End :: "nat option \<Rightarrow> effect list" where
  "span_End span = (case span of Some i \<Rightarrow> [SpanEnd i] | None \<Rightarrow> [])"

section \<open>Contexts and propagation\<close>

type_synonym carrier = "(string \<times> string list) list"

text \<open>The struct \<open>gRPCContext\<close>; its field \<open>record\<close> is named \<open>record_flag\<close>.\<close>

record gRPCContext =
  messagesReceived :: int
  messagesSent :: int
  metricAttrs :: "KeyValue list"
  record_flag :: bool

text \<open>
  The values of a \<open>context.Context\<close> the middlewares read: the active span, the value
  under \<open>gRPCContextKey\<close>, the network of the peer address, and the incoming and outgoing
  gRPC metadata. No hook of the stats handler writes through the \<open>*gRPCContext\<close> pointer
  after \<open>TagRPC\<close>, so the struct is held by value.
\<close>

record Context =
  ctx_span :: "nat option"
  ctx_gctx :: "gRPCContext option"
  ctx_peer :: "string option"
  ctx_incoming :: "carrier option"
  ctx_outgoing :: "carrier option"

text \<open>A \<open>propagation.TextMapPropagator\<close> of the OpenTelemetry library, taken as given.\<close>

record TextMapPropagator =
  Inject :: "Context \<Rightarrow> carrier \<Rightarrow> carrier"
  Extract :: "Context \<Rightarrow> carrier \<Rightarrow> Context"

section \<open>Requests and the gin context\<close>

text \<open>
  A request body is a reader: \<open>io.ReadAll\<close> returns its bytes and leaves it drained,
  or returns the error of a reader that fails.
\<close>

datatype body_reader = Reader string | ErrReader string

definition ReadAll :: "body_reader \<Rightarrow> string + (string \<times> body_reader)" where
  "ReadAll r = (case r of Reader s \<Rightarrow> Inr (s, Reader []) | ErrReader e \<Rightarrow> Inl e)"

record Request =
  Method :: string
  Header :: carrier
  Body :: body_reader
  req_Context :: Context

record ResponseWriter =
  w_Status :: int
  w_Size :: int
  w_Body :: string

text \<open>
  The parts of \<open>gin.Context\<close> the middleware touches. \<open>aborted\<close> stands for the handler
  index having been set to the abort index; \<open>FullPath\<close> is the matched route, empty when
  no route matched; \<open>Keys\<close> holds the names of the tracer and meter stored by \<open>c.Set\<close>.
\<close>

record gin_Context =
  Request :: Request
  Writer :: ResponseWriter
  Errors :: "string list"
  Keys :: "string \<rightharpoonup> string"
  FullPath :: string
  aborted :: bool

text \<open>
  gin's \<open>c.Next()\<close> runs the remaining handlers (\<open>next\<close>) unless the context is aborted;
  \<open>c.AbortWithStatusJSON\<close> aborts and writes the status and the JSON body.
\<close>

definition Next :: "(gin_Context \<Rightarrow> gin_Context) \<Rightarrow> gin_Context \<Rightarrow> gin_Context" where
  "Next next c = (if aborted c then c else next c)"

definition AbortWithStatusJSON :: "int \<Rightarrow> string \<Rightarrow> gin_Context \<Rightarrow> gin_Context" where
  "AbortWithStatusJSON code json c =
     c\<lparr>aborted := True,
       Writer := \<lparr>w_Status = code,
                  w_Size = (if w_Size (Writer c) < 0 then 0 else w_Size (Writer c)) + int (length json),
                  w_Body = w_Body (Writer c) @ json\<rparr>\<rparr>"

text \<open>
  Helpers of this repository's packages \<open>internal\<close> and \<open>internal/semconvutil\<close>, and the
  formatting of gin's error list; their sources are not part of the tree under study, so
  they are parameters of the middlewares.
\<close>

record helpers =
  ParseFullMethod :: "string \<Rightarrow> string \<times> KeyValue list"
  NetTransport :: "string \<Rightarrow> KeyValue"
  HTTPServerRequest :: "string \<Rightarrow> Request \<Rightarrow> KeyValue list"
  HTTPServerRequestMetrics :: "string \<Rightarrow> Request \<Rightarrow> KeyValue list"
  HTTPServerStatus :: "int \<Rightarrow> codes_Code \<times> string"
  Errors_String :: "string list \<Rightarrow> string"

section \<open>The gRPC stats handler (package otelgrpc)\<close>

datatype Role = RoleServer | RoleClient

fun Role_String :: "Role \<Rightarrow> string" where
  "Role_String RoleServer = ''server''"
| "Role_String RoleClient = ''client''"

fun isServer :: "Role \<Rightarrow> bool" where
  "isServer r = (r = RoleServer)"

record RPCTagInfo =
  FullMethodName :: string
  FailFast :: bool

type_synonym Filter = "RPCTagInfo \<Rightarrow> bool"

text \<open>
  The fields of \<open>config\<close> the stats handler reads. \<open>InterceptorFilter\<close>,
  \<open>SpanStartOptions\<close> and the tracer provider are stored by their options and never read
  by \<open>TagRPC\<close> or \<open>HandleRPC\<close>; the tracer is represented by the span handle it returns.
\<close>

record otelgrpc_config =
  grpc_Filter :: "Filter option"
  grpc_Propagators :: "TextMapPropagator option"
  grpc_MeterProvider :: "Meter option"
  grpc_SpanAttributes :: "KeyValue list"
  grpc_MetricAttributes :: "KeyValue list"
  rpcDuration :: instrument
  rpcRequestSize :: instrument
  rpcResponseSize :: instrument
  rpcRequestsPerRPC :: instrument
  rpcResponsesPerRPC :: instrument

datatype otelgrpc_Option =
    otelgrpc_WithFilter "Filter option"
  | otelgrpc_WithPropagators "TextMapPropagator option"
  | otelgrpc_WithMeterProvider "Meter option"
  | otelgrpc_WithSpanAttributes "KeyValue list"
  | otelgrpc_WithMetricAttributes "KeyValue list"

fun otelgrpc_apply :: "otelgrpc_Option \<Rightarrow> otelgrpc_config \<Rightarrow> otelgrpc_config" where
  "otelgrpc_apply (otelgrpc_WithFilter f) cfg =
     (case f of Some g \<Rightarrow> cfg\<lparr>grpc_Filter := Some g\<rparr> | None \<Rightarrow> cfg)"
| "otelgrpc_apply (otelgrpc_WithPropagators p) cfg =
     (case p of Some q \<Rightarrow> cfg\<lparr>grpc_Propagators := Some q\<rparr> | None \<Rightarrow> cfg)"
| "otelgrpc_apply (otelgrpc_WithMeterProvider p) cfg =
     (case p of Some q \<Rightarrow> cfg\<lparr>grpc_MeterProvider := Some q\<rparr> | None \<Rightarrow> cfg)"
| "otelgrpc_apply (otelgrpc_WithSpanAttributes attrs) cfg = cfg\<lparr>grpc_SpanAttributes := attrs\<rparr>"
| "otelgrpc_apply (otelgrpc_WithMetricAttributes attrs) cfg = cfg\<lparr>grpc_MetricAttributes := attrs\<rparr>"

text \<open>The process-wide defaults of package \<open>otel\<close>.\<close>

record otel_globals =
  GetMeterProvider :: Meter
  GetTextMapPropagator :: TextMapPropagator

text \<open>\<open>cfg := &config{}\<close>: every field at its zero value, the instruments not yet set.\<close>

definition otelgrpc_zero_config :: otelgrpc_config where
  "otelgrpc_zero_config =
     \<lparr>grpc_Filter = None, grpc_Propagators = None, grpc_MeterProvider = None,
      grpc_SpanAttributes = [], grpc_MetricAttributes = [],
      rpcDuration = NoopInstrument, rpcRequestSize = NoopInstrument,
      rpcResponseSize = NoopInstrument, rpcRequestsPerRPC = NoopInstrument,
      rpcResponsesPerRPC = NoopInstrument\<rparr>"

definition newConfig :: "otel_globals \<Rightarrow> Role \<Rightarrow> otelgrpc_Option list \<Rightarrow> otelgrpc_config \<times> effect list" where
  "newConfig G role opts =
     (let cfg0 = foldl (\<lambda>c opt. otelgrpc_apply opt c) otelgrpc_zero_config opts;
          meter = (case grpc_MeterProvider cfg0 of None \<Rightarrow> GetMeterProvider G | Some p \<Rightarrow> p);
          props = (case grpc_Propagators cfg0 of None \<Rightarrow> GetTextMapPropagator G | Some p \<Rightarrow> p);
          (d, e1) = create_instrument meter Float64Histogram
                      (''rpc.'' @ Role_String role @ ''.duration'') ''ms'';
          (rq, e2) = create_instrument meter Int64Histogram
                      (''rpc.'' @ Role_String role @ ''.request.size'') ''By'';
          (rs, e3) = create_instrument meter Int64Histogram
                      (''rpc.'' @ Role_String role @ ''.response.size'') ''By'';
          (nq, e4) = create_instrument meter Int64Histogram
                      (''rpc.'' @ Role_String role @ ''.requests_per_rpc'') ''{count}'';
          (ns, e5) = create_instrument meter Int64Histogram
                      (''rpc.'' @ Role_String role @ ''.responses_per_rpc'') ''{count}''
      in (cfg0\<lparr>grpc_MeterProvider := Some meter, grpc_Propagators := Some props,
               rpcDuration := d, rpcRequestSize := rq, rpcResponseSize := rs,
               rpcRequestsPerRPC := nq, rpcResponsesPerRPC := ns\<rparr>,
          e1 @ e2 @ e3 @ e4 @ e5))"

record middleware =
  config :: otelgrpc_config
  role :: Role

definition TracingMiddleware :: "otel_globals \<Rightarrow> Role \<Rightarrow> otelgrpc_Option list \<Rightarrow> middleware \<times> effect list" where
  "TracingMiddleware G r opts =
     (let (cfg, es) = newConfig G r opts in (\<lparr>config = cfg, role = r\<rparr>, es))"

text \<open>
  Modelled from the spec: \<open>extract\<close> of package otelgrpc (the metadata carrier) is called
  by \<open>TagRPC\<close> and is not in the tree. The spec has it parse the incoming carrier into the
  context with the propagator; the carrier is the call's incoming metadata, empty when
  absent. Named \<open>extract_md\<close> here.
\<close>

definition extract_md :: "Context \<Rightarrow> TextMapPropagator \<Rightarrow> Context" where
  "extract_md ctx p = Extract p ctx (case ctx_incoming ctx of None \<Rightarrow> [] | Some md \<Rightarrow> md)"

text \<open>
  Modelled from the spec: \<open>inject\<close> of package otelgrpc is called by \<open>TagRPC\<close> and is not
  in the tree. The spec has it write the current trace context into the outgoing carrier
  with the propagator; the carrier is the call's outgoing metadata, empty when absent, and
  the other values of the context are kept. Named \<open>inject_md\<close> here.
\<close>

definition inject_md :: "Context \<Rightarrow> TextMapPropagator \<Rightarrow> Context" where
  "inject_md ctx p =
     ctx\<lparr>ctx_outgoing := Some (Inject p ctx (case ctx_outgoing ctx of None \<Rightarrow> [] | Some md \<Rightarrow> md))\<rparr>"

definition GRPCStatusCodeKey :: string where
  "GRPCStatusCodeKey = ''rpc.grpc.status_code''"

definition RPCSystemGRPC :: KeyValue where
  "RPCSystemGRPC = (''rpc.system'', StringValue ''grpc'')"

text \<open>
  \<open>m.config.Propagators\<close>. \<open>newConfig\<close> always sets the field; a configuration that left it
  nil, which \<open>newConfig\<close> never returns, is read as a propagator that does nothing.
\<close>

definition the_Propagators :: "otelgrpc_config \<Rightarrow> TextMapPropagator" where
  "the_Propagators cfg =
     (case grpc_Propagators cfg of Some p \<Rightarrow> p
      | None \<Rightarrow> \<lparr>Inject = (\<lambda>ctx c. c), Extract = (\<lambda>ctx c. ctx)\<rparr>)"

text \<open>
  \<open>TagRPC\<close>: \<open>sid\<close> is the handle of the span that \<open>tracer.Start\<close> returns. The span is
  started before the filter is consulted, whatever the filter answers.
\<close>

definition TagRPC ::
  "helpers \<Rightarrow> middleware \<Rightarrow> nat \<Rightarrow> Context \<Rightarrow> RPCTagInfo \<Rightarrow> Context \<times> effect list" where
  "TagRPC X m sid ctx0 info =
     (let ctx = extract_md ctx0 (the_Propagators (config m));
          spanKind = (if isServer (role m) then SpanKindServer else SpanKindClient);
          (name, attrs0) = ParseFullMethod X (FullMethodName info);
          attrs = attrs0 @ [RPCSystemGRPC];
          started = [SpanStart sid name spanKind (attrs @ grpc_SpanAttributes (config m))];
          ctx1 = ctx\<lparr>ctx_span := Some sid\<rparr>;
          gctx = \<lparr>messagesReceived = 0, messagesSent = 0,
                  metricAttrs = attrs @ grpc_MetricAttributes (config m),
                  record_flag = True\<rparr>;
          gctx1 = (case grpc_Filter (config m) of
                     Some f \<Rightarrow> gctx\<lparr>record_flag := f info\<rparr>
                   | None \<Rightarrow> gctx)
      in if isServer (role m) then (ctx1\<lparr>ctx_gctx := Some gctx1\<rparr>, started)
         else (inject_md (ctx1\<lparr>ctx_gctx := Some gctx1\<rparr>) (the_Propagators (config m)), started))"

text \<open>A gRPC status: the result of \<open>status.FromError\<close> on a non-nil terminal error.\<close>

record Status =
  Code :: nat
  Message :: string

definition grpcCodes_OK :: nat where "grpcCodes_OK = 0"
definition grpcCodes_Unknown :: nat where "grpcCodes_Unknown = 2"
definition grpcCodes_DeadlineExceeded :: nat where "grpcCodes_DeadlineExceeded = 4"
definition grpcCodes_Unimplemented :: nat where "grpcCodes_Unimplemented = 12"
definition grpcCodes_Internal :: nat where "grpcCodes_Internal = 13"
definition grpcCodes_Unavailable :: nat where "grpcCodes_Unavailable = 14"
definition grpcCodes_DataLoss :: nat where "grpcCodes_DataLoss = 15"

definition serverStatus :: "Status \<Rightarrow> codes_Code \<times> string" where
  "serverStatus grpcStatus =
     (if Code grpcStatus = grpcCodes_Unknown \<or> Code grpcStatus = grpcCodes_DeadlineExceeded
         \<or> Code grpcStatus = grpcCodes_Unimplemented \<or> Code grpcStatus = grpcCodes_Internal
         \<or> Code grpcStatus = grpcCodes_Unavailable \<or> Code grpcStatus = grpcCodes_DataLoss
      then (codes_Error, Message grpcStatus)
      else (codes_Unset, ''''))"

text \<open>
  The events of \<open>stats.RPCStats\<close>. \<open>End\<close> carries the status of its terminal error
  (\<open>None\<close> for a nil error) and the begin and end times in nanoseconds. \<open>InHeader\<close>,
  \<open>InTrailer\<close> and every other event fall to the \<open>default\<close> branch.
\<close>

datatype RPCStats =
    Begin
  | InPayload int
  | OutPayload int
  | OutTrailer
  | OutHeader
  | End "Status option" int int
  | InHeader
  | InTrailer

definition HandleRPC :: "helpers \<Rightarrow> middleware \<Rightarrow> Context \<Rightarrow> RPCStats \<Rightarrow> effect list" where
  "HandleRPC X m ctx rs =
     (let span = ctx_span ctx;
          gctx = ctx_gctx ctx
      in if (case gctx of Some g \<Rightarrow> \<not> record_flag g | None \<Rightarrow> False) then []
         else
           let mAttrs = (case gctx of Some g \<Rightarrow> metricAttrs g | None \<Rightarrow> [])
           in case rs of
                Begin \<Rightarrow> []
              | InPayload len \<Rightarrow>
                  (case gctx of
                     Some g \<Rightarrow> instrument_Record (rpcRequestSize (config m)) (Int64 len) mAttrs
                   | None \<Rightarrow> [])
              | OutPayload len \<Rightarrow>
                  (case gctx of
                     Some g \<Rightarrow> instrument_Record (rpcResponseSize (config m)) (Int64 len) mAttrs
                   | None \<Rightarrow> [])
              | OutTrailer \<Rightarrow> []
              | OutHeader \<Rightarrow>
                  (case ctx_peer ctx of
                     Some network \<Rightarrow> span_SetAttributes span [NetTransport X network]
                   | None \<Rightarrow> [])
              | End err beginTime endTime \<Rightarrow>
                  (let (statusCalls, rpcStatusAttr) =
                         (case err of
                            Some s \<Rightarrow>
                              ((if isServer (role m)
                                then (let (statusCode, msg) = serverStatus s
                                      in span_SetStatus span statusCode msg)
                                else span_SetStatus span codes_Error (Message s)),
                               (GRPCStatusCodeKey, IntValue (int (Code s))))
                          | None \<Rightarrow> ([], (GRPCStatusCodeKey, IntValue (int grpcCodes_OK))));
                       mAttrs1 = mAttrs @ [rpcStatusAttr]
                   in statusCalls
                      @ span_SetAttributes span [rpcStatusAttr]
                      @ span_End span
                      @ instrument_Record (rpcDuration (config m)) (ElapsedMs (endTime - beginTime)) mAttrs1
                      @ (case gctx of
                           Some g \<Rightarrow>
                             instrument_Record (rpcRequestsPerRPC (config m)) (Int64 (messagesReceived g)) mAttrs1
                             @ instrument_Record (rpcResponsesPerRPC (config m)) (Int64 (messagesSent g)) mAttrs1
                         | None \<Rightarrow> []))
              | InHeader \<Rightarrow> []
              | InTrailer \<Rightarrow> [])"

text \<open>
  One call as the gRPC runtime drives it: \<open>TagRPC\<close>, then \<open>HandleRPC\<close> on every event
  with the context \<open>TagRPC\<close> returned. Hooks of the two directions of a stream run on
  different goroutines; the list is the order in which their effects take place.
\<close>

definition run_call ::
  "helpers \<Rightarrow> middleware \<Rightarrow> nat \<Rightarrow> Context \<Rightarrow> RPCTagInfo \<Rightarrow> RPCStats list \<Rightarrow> effect list" where
  "run_call X m sid ctx0 info evs =
     (let (ctx, started) = TagRPC X m sid ctx0 info
      in started @ concat (map (HandleRPC X m ctx) evs))"

section \<open>The gin middleware (package otelgin)\<close>

type_synonym otelgin_Filter = "Request \<Rightarrow> bool"

type_synonym GinFilter = "gin_Context \<Rightarrow> bool"

type_synonym SpanNameFormatter = "Request \<Rightarrow> string"

text \<open>
  \<open>config\<close> of package otelgin. The tracer provider option is stored and never read: the
  middleware takes its tracer and meter from the process-wide providers.
\<close>

record otelgin_config =
  gin_MeterProvider :: "Meter option"
  gin_Propagators :: "TextMapPropagator option"
  Filters :: "otelgin_Filter list"
  GinFilters :: "GinFilter list"
  SpanNameFormatter :: "SpanNameFormatter option"
  reqDuration :: instrument
  reqSize :: instrument
  respSize :: instrument
  activeReqs :: instrument

datatype otelgin_Option =
    otelgin_WithPropagators "TextMapPropagator option"
  | otelgin_WithMeterProvider "Meter option"
  | otelgin_WithFilter "otelgin_Filter list"
  | otelgin_WithSpanNameFormatter "SpanNameFormatter option"
  | otelgin_WithGinFilter "GinFilter list"

fun otelgin_apply :: "otelgin_Option \<Rightarrow> otelgin_config \<Rightarrow> otelgin_config" where
  "otelgin_apply (otelgin_WithPropagators p) c =
     (case p of Some q \<Rightarrow> c\<lparr>gin_Propagators := Some q\<rparr> | None \<Rightarrow> c)"
| "otelgin_apply (otelgin_WithMeterProvider p) c =
     (case p of Some q \<Rightarrow> c\<lparr>gin_MeterProvider := Some q\<rparr> | None \<Rightarrow> c)"
| "otelgin_apply (otelgin_WithFilter f) c = c\<lparr>Filters := Filters c @ f\<rparr>"
| "otelgin_apply (otelgin_WithSpanNameFormatter f) c = c\<lparr>SpanNameFormatter := f\<rparr>"
| "otelgin_apply (otelgin_WithGinFilter f) c = c\<lparr>GinFilters := GinFilters c @ f\<rparr>"

definition otelgin_zero_config :: otelgin_config where
  "otelgin_zero_config =
     \<lparr>gin_MeterProvider = None, gin_Propagators = None, Filters = [], GinFilters = [],
      SpanNameFormatter = None, reqDuration = NoopInstrument, reqSize = NoopInstrument,
      respSize = NoopInstrument, activeReqs = NoopInstrument\<rparr>"

definition tracerKey :: string where "tracerKey = ''kgs-tracer''"
definition meterKey :: string where "meterKey = ''kgs-meter''"
definition otelgin_role :: string where "otelgin_role = ''server''"

text \<open>
  The set-up half of \<open>Tracing\<close>: the options are applied, the defaults filled in, and the
  four instruments requested from the process-wide meter (\<open>otel.Meter(serviceName)\<close>).
\<close>

definition Tracing :: "otel_globals \<Rightarrow> string \<Rightarrow> otelgin_Option list \<Rightarrow> otelgin_config \<times> effect list" where
  "Tracing G serviceName opts =
     (let cfg0 = foldl (\<lambda>c opt. otelgin_apply opt c) otelgin_zero_config opts;
          mp = (case gin_MeterProvider cfg0 of None \<Rightarrow> GetMeterProvider G | Some p \<Rightarrow> p);
          props = (case gin_Propagators cfg0 of None \<Rightarrow> GetTextMapPropagator G | Some p \<Rightarrow> p);
          meter = GetMeterProvider G;
          (d, e1) = create_instrument meter Float64Histogram
                      (''http.'' @ otelgin_role @ ''.request.duration'') ''ms'';
          (rq, e2) = create_instrument meter Int64UpDownCounter
                      (''http.'' @ otelgin_role @ ''.request.body.size'') ''By'';
          (rs, e3) = create_instrument meter Int64UpDownCounter
                      (''http.'' @ otelgin_role @ ''.response.body.size'') ''By'';
          (ar, e4) = create_instrument meter Int64UpDownCounter
                      (''http.'' @ otelgin_role @ ''.active_requests'') ''{count}''
      in (cfg0\<lparr>gin_MeterProvider := Some mp, gin_Propagators := Some props,
               reqDuration := d, reqSize := rq, respSize := rs, activeReqs := ar\<rparr>,
          e1 @ e2 @ e3 @ e4))"

definition failed_to_read_json :: string where
  \<open>failed_to_read_json = ''{"error":"failed to read request body"}''\<close>

definition StatusInternalServerError :: int where
  "StatusInternalServerError = 500"

text \<open>
  \<open>calcReqSize\<close> returns the size and the context it leaves behind: aborted with the
  error response when the read fails, with the body put back otherwise.
\<close>

definition calcReqSize :: "gin_Context \<Rightarrow> int \<times> gin_Context" where
  "calcReqSize c =
     (case ReadAll (Body (Request c)) of
        Inl err \<Rightarrow> (0, AbortWithStatusJSON StatusInternalServerError failed_to_read_json c)
      | Inr (body, drained) \<Rightarrow>
          (let c1 = c\<lparr>Request := (Request c)\<lparr>Body := Reader body\<rparr>\<rparr>;
               headerSize =
                 foldl (\<lambda>acc (name, values).
                          foldl (\<lambda>a v. a + int (length v)) (acc + int (length name) + 2) values)
                       0 (Header (Request c1))
           in (headerSize + int (length body), c1)))"

text \<open>The loop over \<open>cfg.Filters\<close>: the first filter that rejects the request ends it.\<close>

fun filters_pass :: "otelgin_Filter list \<Rightarrow> Request \<Rightarrow> bool" where
  "filters_pass [] r = True"
| "filters_pass (f # fs) r = (if \<not> f r then False else filters_pass fs r)"

definition HTTPRoute :: "string \<Rightarrow> KeyValue" where
  "HTTPRoute route = (''http.route'', StringValue route)"

definition HTTPStatusCode :: "int \<Rightarrow> KeyValue" where
  "HTTPStatusCode n = (''http.status_code'', IntValue n)"

text \<open>
  \<open>cfg.Propagators\<close>, which \<open>Tracing\<close> always sets; a nil field, which \<open>Tracing\<close> never
  leaves, is read as a propagator that does nothing.
\<close>

definition gin_Propagator :: "otelgin_config \<Rightarrow> TextMapPropagator" where
  "gin_Propagator cfg =
     (case gin_Propagators cfg of Some p \<Rightarrow> p
      | None \<Rightarrow> \<lparr>Inject = (\<lambda>ctx c. c), Extract = (\<lambda>ctx c. ctx)\<rparr>)"

text \<open>
  The handler \<open>Tracing\<close> returns. \<open>next\<close> is the rest of the handler chain, \<open>sid\<close> the
  handle of the span \<open>tracer.Start\<close> returns and \<open>elapsed\<close> the value of
  \<open>time.Since(before)\<close> in nanoseconds. The result is the context the handler leaves and
  the telemetry calls of the middleware itself.
\<close>

definition Tracing_handler ::
  "helpers \<Rightarrow> string \<Rightarrow> otelgin_config \<Rightarrow> (gin_Context \<Rightarrow> gin_Context) \<Rightarrow> nat \<Rightarrow> int
     \<Rightarrow> gin_Context \<Rightarrow> gin_Context \<times> effect list" where
  "Tracing_handler X serviceName cfg next sid elapsed c =
     (if \<not> filters_pass (Filters cfg) (Request c) then (Next next c, [])
      else
        let c1 = c\<lparr>Keys := (Keys c)(tracerKey \<mapsto> serviceName, meterKey \<mapsto> serviceName)\<rparr>;
            savedCtx = req_Context (Request c1);
            ctx = Extract (gin_Propagator cfg) savedCtx (Header (Request c1));
            httpTraceAttrs = HTTPServerRequest X serviceName (Request c1);
            mAttrs0 = HTTPServerRequestMetrics X serviceName (Request c1);
            spanName0 = (case SpanNameFormatter cfg of
                           None \<Rightarrow> FullPath c1
                         | Some f \<Rightarrow> f (Request c1));
            (spanName, spanAttrs, mAttrs1) =
              (if spanName0 = []
               then (''HTTP '' @ Method (Request c1) @ '' route not found'', httpTraceAttrs, mAttrs0)
               else (spanName0, httpTraceAttrs @ [HTTPRoute spanName0], mAttrs0 @ [HTTPRoute spanName0]));
            started = [SpanStart sid spanName SpanKindServer spanAttrs];
            ctx1 = ctx\<lparr>ctx_span := Some sid\<rparr>;
            c2 = c1\<lparr>Request := (Request c1)\<lparr>req_Context := ctx1\<rparr>\<rparr>;
            (size, c3) = calcReqSize c2;
            c4 = Next next c3;
            respSize0 = w_Size (Writer c4);
            respSize1 = (if respSize0 < 0 then 0 else respSize0);
            status = w_Status (Writer c4);
            (statusCode, statusMsg) = HTTPServerStatus X status;
            setStatus = [SpanSetStatus sid statusCode statusMsg];
            sizes = instrument_Add (reqSize cfg) size mAttrs1
                    @ instrument_Add (respSize cfg) respSize1 mAttrs1;
            (statusCalls, mAttrs2) =
              (if status > 0
               then ([SpanSetAttributes sid [HTTPStatusCode status]], mAttrs1 @ [HTTPStatusCode status])
               else ([], mAttrs1));
            errAttr = (''gin.errors'', StringValue (Errors_String X (Errors c4)));
            (errCalls, mAttrs3) =
              (if length (Errors c4) > 0
               then ([SpanSetAttributes sid [errAttr]], mAttrs2 @ [errAttr])
               else ([], mAttrs2));
            final = instrument_Record (reqDuration cfg) (ElapsedMs elapsed) mAttrs3
                    @ instrument_Add (activeReqs cfg) 1 mAttrs3;
            c5 = c4\<lparr>Request := (Request c4)\<lparr>req_Context := savedCtx\<rparr>\<rparr>
        in (c5, started @ setStatus @ sizes @ statusCalls @ errCalls @ final @ [SpanEnd sid]))"

section \<open>Reading the telemetry calls\<close>

fun samples_of :: "string \<Rightarrow> effect list \<Rightarrow> number list" where
  "samples_of n [] = []"
| "samples_of n (Record n' v a # es) = (if n' = n then v # samples_of n es else samples_of n es)"
| "samples_of n (_ # es) = samples_of n es"

fun is_sample :: "effect \<Rightarrow> bool" where
  "is_sample (Record n v a) = True"
| "is_sample (Add n v a) = True"
| "is_sample _ = False"

fun is_SpanStart :: "effect \<Rightarrow> bool" where
  "is_SpanStart (SpanStart i n k a) = True"
| "is_SpanStart _ = False"

fun is_MeterCreate :: "effect \<Rightarrow> bool" where
  "is_MeterCreate (MeterCreate k n u) = True"
| "is_MeterCreate _ = False"

fun is_End :: "RPCStats \<Rightarrow> bool" where
  "is_End (End err b e) = True"
| "is_End _ = False"

fun status_calls :: "nat \<Rightarrow> effect list \<Rightarrow> (codes_Code \<times> string) list" where
  "status_calls i [] = []"
| "status_calls i (SpanSetStatus j c msg # es) =
     (if j = i then (c, msg) # status_calls i es else status_calls i es)"
| "status_calls i (_ # es) = status_calls i es"

fun attribute_calls :: "nat \<Rightarrow> effect list \<Rightarrow> KeyValue list" where
  "attribute_calls i [] = []"
| "attribute_calls i (SpanSetAttributes j kvs # es) =
     (if j = i then kvs @ attribute_calls i es else attribute_calls i es)"
| "attribute_calls i (_ # es) = attribute_calls i es"

fun effect_attrs :: "effect \<Rightarrow> KeyValue list" where
  "effect_attrs (SpanStart i n k a) = a"
| "effect_attrs (SpanSetAttributes i a) = a"
| "effect_attrs (Record n v a) = a"
| "effect_attrs (Add n v a) = a"
| "effect_attrs _ = []"

text \<open>The status-code attribute the end hook computes from the terminal error.\<close>

definition end_status_attr :: "Status option \<Rightarrow> KeyValue" where
  "end_status_attr err =
     (GRPCStatusCodeKey, IntValue (int (case err of Some s \<Rightarrow> Code s | None \<Rightarrow> grpcCodes_OK)))"

section \<open>Example inputs\<close>

definition example_globals :: otel_globals where
  "example_globals =
     \<lparr>GetMeterProvider = (\<lambda>k n u. Created),
      GetTextMapPropagator = \<lparr>Inject = (\<lambda>ctx c. c), Extract = (\<lambda>ctx c. ctx)\<rparr>\<rparr>"

definition example_helpers :: helpers where
  "example_helpers =
     \<lparr>ParseFullMethod = (\<lambda>s. (s, [])),
      NetTransport = (\<lambda>n. (''net.transport'', StringValue n)),
      HTTPServerRequest = (\<lambda>s r. [(''http.method'', StringValue (Method r))]),
      HTTPServerRequestMetrics = (\<lambda>s r. [(''http.method'', StringValue (Method r))]),
      HTTPServerStatus = (\<lambda>n. if n \<ge> 500 then (codes_Error, []) else (codes_Unset, [])),
      Errors_String = concat\<rparr>"

definition background :: Context where
  "background =
     \<lparr>ctx_span = None, ctx_gctx = None, ctx_peer = None, ctx_incoming = None, ctx_outgoing = None\<rparr>"

definition example_info :: RPCTagInfo where
  "example_info = \<lparr>FullMethodName = ''/api.HelloService/SayHelloClientStream'', FailFast = False\<rparr>"

definition example_gin :: "string \<Rightarrow> body_reader \<Rightarrow> gin_Context" where
  "example_gin path body =
     \<lparr>Request = \<lparr>Method = ''GET'', Header = [(''Accept'', [''*/*''])], Body = body,
                  req_Context = background\<rparr>,
      Writer = \<lparr>w_Status = 200, w_Size = - 1, w_Body = []\<rparr>,
      Errors = [], Keys = Map.empty, FullPath = path, aborted = False\<rparr>"

definition example_next :: "gin_Context \<Rightarrow> gin_Context" where
  "example_next c = c\<lparr>Writer := \<lparr>w_Status = 200, w_Size = 2, w_Body = ''ok''\<rparr>\<rparr>"

definition reject_all :: Filter where
  "reject_all info = False"

definition example_server :: middleware where
  "example_server = fst (TracingMiddleware example_globals RoleServer [])"

definition example_server_filtered :: middleware where
  "example_server_filtered =
     fst (TracingMiddleware example_globals RoleServer [otelgrpc_WithFilter (Some reject_all)])"

definition example_tagged :: Context where
  "example_tagged = fst (TagRPC example_helpers example_server 0 background example_info)"

definition example_tagged_filtered :: Context where
  "example_tagged_filtered =
     fst (TagRPC example_helpers example_server_filtered 0 background example_info)"

definition example_untagged :: Context where
  "example_untagged = background\<lparr>ctx_span := Some 0\<rparr>"

definition example_internal :: Status where
  "example_internal = \<lparr>Code = grpcCodes_Internal, Message = ''boom''\<rparr>"

definition example_not_found :: Status where
  "example_not_found = \<lparr>Code = 5, Message = ''no such thing''\<rparr>"

definition reject_request :: otelgin_Filter where
  "reject_request r = False"

definition example_gin_config :: otelgin_config where
  "example_gin_config = fst (Tracing example_globals ''kgsotel-http-example'' [])"

definition example_gin_config_filtered :: otelgin_config where
  "example_gin_config_filtered =
     fst (Tracing example_globals ''kgsotel-http-example'' [otelgin_WithFilter [reject_request]])"

section \<open>Lemmas on the stats handler\<close>

lemma samples_of_append: "samples_of n (xs @ ys) = samples_of n xs @ samples_of n ys"
  by (induction n xs rule: samples_of.induct) simp_all

lemma samples_of_instrument_Record:
  "samples_of n (instrument_Record i v a) =
     (case i of Instrument k n' u \<Rightarrow> (if n' = n then [v] else []) | NoopInstrument \<Rightarrow> [])"
  by (simp add: instrument_Record_def split: instrument.splits)

lemma samples_of_span_calls:
  "samples_of n (span_SetStatus sp c msg) = []"
  "samples_of n (span_SetAttributes sp kvs) = []"
  "samples_of n (span_End sp) = []"
  by (simp_all add: span_SetStatus_def span_SetAttributes_def span_End_def split: option.splits)

lemma count_SpanEnd_instrument:
  "count_list (instrument_Record i v a) (SpanEnd sid) = 0"
  "count_list (instrument_Add i w a) (SpanEnd sid) = 0"
  by (simp_all add: instrument_Record_def instrument_Add_def split: instrument.splits)

lemma count_SpanEnd_span_calls:
  "count_list (span_SetStatus sp c msg) (SpanEnd sid) = 0"
  "count_list (span_SetAttributes sp kvs) (SpanEnd sid) = 0"
  "count_list (span_End (Some sid)) (SpanEnd sid) = 1"
  by (simp_all add: span_SetStatus_def span_SetAttributes_def span_End_def split: option.splits)


lemma HandleRPC_not_recording:
  "ctx_gctx ctx = Some g \<Longrightarrow> \<not> record_flag g \<Longrightarrow> HandleRPC X m ctx rs = []"
  by (simp add: HandleRPC_def Let_def)

lemma HandleRPC_End_recording:
  "ctx_gctx ctx = Some g \<Longrightarrow> record_flag g \<Longrightarrow>
   HandleRPC X m ctx (End err b e) =
     (case err of
        Some s \<Rightarrow> (if isServer (role m) then span_SetStatus (ctx_span ctx) (fst (serverStatus s)) (snd (serverStatus s))
                   else span_SetStatus (ctx_span ctx) codes_Error (Message s))
      | None \<Rightarrow> [])
     @ span_SetAttributes (ctx_span ctx) [end_status_attr err]
     @ span_End (ctx_span ctx)
     @ instrument_Record (rpcDuration (config m)) (ElapsedMs (e - b)) (metricAttrs g @ [end_status_attr err])
     @ instrument_Record (rpcRequestsPerRPC (config m)) (Int64 (messagesReceived g)) (metricAttrs g @ [end_status_attr err])
     @ instrument_Record (rpcResponsesPerRPC (config m)) (Int64 (messagesSent g)) (metricAttrs g @ [end_status_attr err])"
  by (simp add: HandleRPC_def Let_def end_status_attr_def split: option.splits prod.splits)

lemma HandleRPC_End_no_gctx:
  "ctx_gctx ctx = None \<Longrightarrow>
   HandleRPC X m ctx (End err b e) =
     (case err of
        Some s \<Rightarrow> (if isServer (role m) then span_SetStatus (ctx_span ctx) (fst (serverStatus s)) (snd (serverStatus s))
                   else span_SetStatus (ctx_span ctx) codes_Error (Message s))
      | None \<Rightarrow> [])
     @ span_SetAttributes (ctx_span ctx) [end_status_attr err]
     @ span_End (ctx_span ctx)
     @ instrument_Record (rpcDuration (config m)) (ElapsedMs (e - b)) [end_status_attr err]"
  by (simp add: HandleRPC_def Let_def end_status_attr_def split: option.splits prod.splits)

lemma HandleRPC_other_recording:
  "ctx_gctx ctx = Some g \<Longrightarrow> record_flag g \<Longrightarrow>
     HandleRPC X m ctx Begin = []
   \<and> HandleRPC X m ctx (InPayload n) = instrument_Record (rpcRequestSize (config m)) (Int64 n) (metricAttrs g)
   \<and> HandleRPC X m ctx (OutPayload n) = instrument_Record (rpcResponseSize (config m)) (Int64 n) (metricAttrs g)
   \<and> HandleRPC X m ctx OutTrailer = []
   \<and> HandleRPC X m ctx OutHeader =
        (case ctx_peer ctx of Some network \<Rightarrow> span_SetAttributes (ctx_span ctx) [NetTransport X network] | None \<Rightarrow> [])
   \<and> HandleRPC X m ctx InHeader = []
   \<and> HandleRPC X m ctx InTrailer = []"
  by (simp add: HandleRPC_def Let_def)

lemma HandleRPC_other_no_gctx:
  "ctx_gctx ctx = None \<Longrightarrow>
     HandleRPC X m ctx Begin = []
   \<and> HandleRPC X m ctx (InPayload n) = []
   \<and> HandleRPC X m ctx (OutPayload n) = []
   \<and> HandleRPC X m ctx OutTrailer = []
   \<and> HandleRPC X m ctx OutHeader =
        (case ctx_peer ctx of Some network \<Rightarrow> span_SetAttributes (ctx_span ctx) [NetTransport X network] | None \<Rightarrow> [])
   \<and> HandleRPC X m ctx InHeader = []
   \<and> HandleRPC X m ctx InTrailer = []"
  by (simp add: HandleRPC_def Let_def)

lemma TagRPC_result:
  "TagRPC X m sid ctx0 info = (ctx, started) \<Longrightarrow>
     ctx_span ctx = Some sid
   \<and> (\<exists>g. ctx_gctx ctx = Some g
          \<and> record_flag g = (case grpc_Filter (config m) of None \<Rightarrow> True | Some f \<Rightarrow> f info)
          \<and> messagesReceived g = 0 \<and> messagesSent g = 0)
   \<and> (\<exists>name attrs. started = [SpanStart sid name (if isServer (role m) then SpanKindServer else SpanKindClient) attrs])"
  by (auto simp add: TagRPC_def inject_md_def Let_def split: prod.splits option.splits if_splits)

lemma newConfig_instruments:
  "rpcDuration (fst (newConfig G r opts)) \<in> {Instrument Float64Histogram (''rpc.'' @ Role_String r @ ''.duration'') ''ms'', NoopInstrument}"
  "rpcRequestSize (fst (newConfig G r opts)) \<in> {Instrument Int64Histogram (''rpc.'' @ Role_String r @ ''.request.size'') ''By'', NoopInstrument}"
  "rpcResponseSize (fst (newConfig G r opts)) \<in> {Instrument Int64Histogram (''rpc.'' @ Role_String r @ ''.response.size'') ''By'', NoopInstrument}"
  "rpcRequestsPerRPC (fst (newConfig G r opts)) \<in> {Instrument Int64Histogram (''rpc.'' @ Role_String r @ ''.requests_per_rpc'') ''{count}'', NoopInstrument}"
  "rpcResponsesPerRPC (fst (newConfig G r opts)) \<in> {Instrument Int64Histogram (''rpc.'' @ Role_String r @ ''.responses_per_rpc'') ''{count}'', NoopInstrument}"
  by (simp_all add: newConfig_def Let_def create_instrument_def split: prod.splits meter_result.splits)

lemma TracingMiddleware_fst:
  "config (fst (TracingMiddleware G r opts)) = fst (newConfig G r opts)"
  "role (fst (TracingMiddleware G r opts)) = r"
  by (simp_all add: TracingMiddleware_def split: prod.splits)

lemma duration_name_distinct:
  "''rpc.'' @ Role_String r @ ''.request.size'' \<noteq> ''rpc.'' @ Role_String r @ ''.duration''"
  "''rpc.'' @ Role_String r @ ''.response.size'' \<noteq> ''rpc.'' @ Role_String r @ ''.duration''"
  "''rpc.'' @ Role_String r @ ''.requests_per_rpc'' \<noteq> ''rpc.'' @ Role_String r @ ''.duration''"
  "''rpc.'' @ Role_String r @ ''.responses_per_rpc'' \<noteq> ''rpc.'' @ Role_String r @ ''.duration''"
  by (cases r; simp)+

lemma samples_of_concat_Nil:
  "(\<And>x. x \<in> set xs \<Longrightarrow> samples_of n (f x) = []) \<Longrightarrow> samples_of n (concat (map f xs)) = []"
  by (induction xs) (simp_all add: samples_of_append)

lemma count_list_concat_0:
  "(\<And>x. x \<in> set xs \<Longrightarrow> count_list (f x) a = 0) \<Longrightarrow> count_list (concat (map f xs)) a = 0"
  by (induction xs) simp_all

lemma other_instruments_not_duration:
  assumes m: "m = fst (TracingMiddleware G r opts)"
      and dn: "dn = ''rpc.'' @ Role_String r @ ''.duration''"
  shows "samples_of dn (instrument_Record (rpcRequestSize (config m)) v a) = []"
    and "samples_of dn (instrument_Record (rpcResponseSize (config m)) v a) = []"
    and "samples_of dn (instrument_Record (rpcRequestsPerRPC (config m)) v a) = []"
    and "samples_of dn (instrument_Record (rpcResponsesPerRPC (config m)) v a) = []"
  using newConfig_instruments(2-5) [of G r opts] duration_name_distinct [of r]
  by (auto simp add: m dn TracingMiddleware_fst samples_of_instrument_Record)

lemma HandleRPC_non_End_recording:
  assumes g: "ctx_gctx ctx = Some g" "record_flag g"
      and ne: "\<not> is_End ev"
      and m: "m = fst (TracingMiddleware G r opts)"
      and dn: "dn = ''rpc.'' @ Role_String r @ ''.duration''"
  shows "count_list (HandleRPC X m ctx ev) (SpanEnd sid) = 0"
    and "samples_of dn (HandleRPC X m ctx ev) = []"
proof -
  note H = HandleRPC_other_recording [OF g, of X m]
  show "count_list (HandleRPC X m ctx ev) (SpanEnd sid) = 0"
    using ne H by (cases ev) (simp_all add: count_SpanEnd_instrument count_SpanEnd_span_calls split: option.splits)
  show "samples_of dn (HandleRPC X m ctx ev) = []"
    using ne H by (cases ev)
      (simp_all add: other_instruments_not_duration [OF m dn] samples_of_span_calls split: option.splits)
qed

lemma HandleRPC_End_counts:
  assumes g: "ctx_gctx ctx = Some g" "record_flag g"
      and sp: "ctx_span ctx = Some sid"
      and m: "m = fst (TracingMiddleware G r opts)"
      and created: "rpcDuration (config m) \<noteq> NoopInstrument"
      and dn: "dn = ''rpc.'' @ Role_String r @ ''.duration''"
  shows "count_list (HandleRPC X m ctx (End err b e)) (SpanEnd sid) = 1"
    and "samples_of dn (HandleRPC X m ctx (End err b e)) = [ElapsedMs (e - b)]"
proof -
  note H = HandleRPC_End_recording [OF g, of X m err b e]
  show "count_list (HandleRPC X m ctx (End err b e)) (SpanEnd sid) = 1"
    by (simp add: H sp count_SpanEnd_instrument count_SpanEnd_span_calls split: option.splits)
  have d: "rpcDuration (config m) = Instrument Float64Histogram dn ''ms''"
    using newConfig_instruments(1) [of G r opts] created by (simp add: m dn TracingMiddleware_fst)
  have dur: "samples_of dn (instrument_Record (rpcDuration (config m)) v a) = [v]" for v a
    by (simp add: d samples_of_instrument_Record)
  show "samples_of dn (HandleRPC X m ctx (End err b e)) = [ElapsedMs (e - b)]"
    by (simp add: H samples_of_append samples_of_span_calls other_instruments_not_duration [OF m dn]
          dur split: option.splits)
qed

lemma status_calls_append: "status_calls i (xs @ ys) = status_calls i xs @ status_calls i ys"
  by (induction i xs rule: status_calls.induct) simp_all

lemma attribute_calls_append:
  "attribute_calls i (xs @ ys) = attribute_calls i xs @ attribute_calls i ys"
  by (induction i xs rule: attribute_calls.induct) simp_all

lemma status_calls_simps:
  "status_calls i (span_SetStatus (Some i) c msg) = [(c, msg)]"
  "status_calls i (span_SetAttributes sp kvs) = []"
  "status_calls i (span_End sp) = []"
  "status_calls i (instrument_Record ins v a) = []"
  by (simp_all add: span_SetStatus_def span_SetAttributes_def span_End_def instrument_Record_def
      split: option.splits instrument.splits)

lemma attribute_calls_simps:
  "attribute_calls i (span_SetStatus sp c msg) = []"
  "attribute_calls i (span_SetAttributes (Some i) kvs) = kvs"
  "attribute_calls i (span_End sp) = []"
  "attribute_calls i (instrument_Record ins v a) = []"
  by (simp_all add: span_SetStatus_def span_SetAttributes_def span_End_def instrument_Record_def
      split: option.splits instrument.splits)

lemma sample_in_instrument_Record:
  "ev \<in> set (instrument_Record ins v a) \<Longrightarrow> effect_attrs ev = a"
  by (auto simp add: instrument_Record_def split: instrument.splits)

lemma no_sample_in_span_calls:
  "ev \<in> set (span_SetStatus sp c msg) \<Longrightarrow> \<not> is_sample ev"
  "ev \<in> set (span_SetAttributes sp kvs) \<Longrightarrow> \<not> is_sample ev"
  "ev \<in> set (span_End sp) \<Longrightarrow> \<not> is_sample ev"
  by (auto simp add: span_SetStatus_def span_SetAttributes_def span_End_def split: option.splits)

lemma serverStatus_cases:
  "Code s \<in> {grpcCodes_Unknown, grpcCodes_DeadlineExceeded, grpcCodes_Unimplemented,
              grpcCodes_Internal, grpcCodes_Unavailable, grpcCodes_DataLoss}
     \<Longrightarrow> serverStatus s = (codes_Error, Message s)"
  "Code s \<notin> {grpcCodes_Unknown, grpcCodes_DeadlineExceeded, grpcCodes_Unimplemented,
              grpcCodes_Internal, grpcCodes_Unavailable, grpcCodes_DataLoss}
     \<Longrightarrow> serverStatus s = (codes_Unset, [])"
  by (auto simp add: serverStatus_def)

lemma HandleRPC_End_prefix:
  assumes rec: "case ctx_gctx ctx of None \<Rightarrow> True | Some g \<Rightarrow> record_flag g"
  shows "\<exists>attrs.
     HandleRPC X m ctx (End err b e) =
       (case err of
          Some s \<Rightarrow> (if isServer (role m)
                     then span_SetStatus (ctx_span ctx) (fst (serverStatus s)) (snd (serverStatus s))
                     else span_SetStatus (ctx_span ctx) codes_Error (Message s))
        | None \<Rightarrow> [])
       @ span_SetAttributes (ctx_span ctx) [end_status_attr err]
       @ span_End (ctx_span ctx)
       @ instrument_Record (rpcDuration (config m)) (ElapsedMs (e - b)) (attrs @ [end_status_attr err])
       @ (case ctx_gctx ctx of
            Some g \<Rightarrow> instrument_Record (rpcRequestsPerRPC (config m)) (Int64 (messagesReceived g)) (attrs @ [end_status_attr err])
                     @ instrument_Record (rpcResponsesPerRPC (config m)) (Int64 (messagesSent g)) (attrs @ [end_status_attr err])
          | None \<Rightarrow> [])"
proof (cases "ctx_gctx ctx")
  case None
  show ?thesis
    by (rule exI [of _ "[]"]) (simp add: HandleRPC_End_no_gctx [OF None] None)
next
  case (Some g)
  with rec have r: "record_flag g" by simp
  show ?thesis
    by (rule exI [of _ "metricAttrs g"]) (simp add: HandleRPC_End_recording [OF Some r] Some)
qed

section \<open>Claims on the stats handler\<close>

text \<open>
  C1. The claim: in a streaming call with recording enabled, every inbound payload event
  increments the messages-received counter, every outbound one the messages-sent counter,
  and the end hook records \<open>requests_per_rpc\<close> and \<open>responses_per_rpc\<close> samples equal to
  the number of messages of each direction.
  \<open>HandleRPC\<close> has no write to either counter (the increment of \<open>messagesSent\<close> is
  commented out, that of \<open>messagesReceived\<close> is absent), so the end hook loads the zeros
  \<open>TagRPC\<close> stored. On a server-role call with no filter that receives two messages and
  sends one, both samples are 0.
\<close>

theorem C1_per_rpc_samples_are_zero:
  "samples_of ''rpc.server.requests_per_rpc''
     (run_call example_helpers example_server 0 background example_info
        [Begin, InPayload 7, InPayload 7, OutPayload 9, End None 0 1000000]) = [Int64 0]
   \<and> samples_of ''rpc.server.responses_per_rpc''
     (run_call example_helpers example_server 0 background example_info
        [Begin, InPayload 7, InPayload 7, OutPayload 9, End None 0 1000000]) = [Int64 0]
   \<and> samples_of ''rpc.server.request.size''
     (run_call example_helpers example_server 0 background example_info
        [Begin, InPayload 7, InPayload 7, OutPayload 9, End None 0 1000000]) = [Int64 7, Int64 7]"
  by code_simp

text \<open>
  C2. The claim: every call whose tag hook opened a span, also one whose filter set the
  record flag to false, has its span closed exactly once at the end hook and exactly one
  duration sample recorded.
  It fails for a call the filter rejects: \<open>HandleRPC\<close> returns at once when the record flag
  is false, so the end hook neither ends the span nor records the duration.
\<close>

theorem C2_filtered_call_counterexample:
  "run_call example_helpers example_server_filtered 0 background example_info
      [Begin, InPayload 7, End None 0 1000000]
     = [SpanStart 0 ''/api.HelloService/SayHelloClientStream'' SpanKindServer
          [(''rpc.system'', StringValue ''grpc'')]]
   \<and> count_list (run_call example_helpers example_server_filtered 0 background example_info
        [Begin, InPayload 7, End None 0 1000000]) (SpanEnd 0) \<noteq> 1
   \<and> length (samples_of ''rpc.server.duration''
        (run_call example_helpers example_server_filtered 0 background example_info
           [Begin, InPayload 7, End None 0 1000000])) \<noteq> 1"
  by code_simp

text \<open>
  C2, amended. For a middleware built by \<open>TracingMiddleware\<close> whose duration instrument was
  created, and a call made of any events other than \<open>End\<close> followed by one \<open>End\<close>: when no
  filter is configured or the filter admits the call, the span opened by the tag hook is
  ended exactly once and exactly one duration sample, the elapsed time of the call, is
  recorded; when the filter rejects the call, no metric sample of any kind is recorded.
\<close>

theorem C2_span_closed_once_when_recording:
  assumes m: "m = fst (TracingMiddleware G r opts)"
      and created: "rpcDuration (config m) \<noteq> NoopInstrument"
      and no_end: "\<forall>ev \<in> set evs. \<not> is_End ev"
      and dn: "dn = ''rpc.'' @ Role_String r @ ''.duration''"
  shows "((case grpc_Filter (config m) of None \<Rightarrow> True | Some f \<Rightarrow> f info) \<longrightarrow>
           count_list (run_call X m sid ctx0 info (evs @ [End err b e])) (SpanEnd sid) = 1
         \<and> samples_of dn (run_call X m sid ctx0 info (evs @ [End err b e])) = [ElapsedMs (e - b)])
       \<and> (\<not> (case grpc_Filter (config m) of None \<Rightarrow> True | Some f \<Rightarrow> f info) \<longrightarrow>
           filter is_sample (run_call X m sid ctx0 info (evs @ [End err b e])) = [])"
proof -
  obtain ctx started where tag: "TagRPC X m sid ctx0 info = (ctx, started)"
    by (cases "TagRPC X m sid ctx0 info")
  from TagRPC_result [OF tag] obtain g name attrs where
    sp: "ctx_span ctx = Some sid" and g: "ctx_gctx ctx = Some g"
    and rf: "record_flag g = (case grpc_Filter (config m) of None \<Rightarrow> True | Some f \<Rightarrow> f info)"
    and st: "started = [SpanStart sid name (if isServer (role m) then SpanKindServer else SpanKindClient) attrs]"
    by blast
  have run: "run_call X m sid ctx0 info (evs @ [End err b e])
               = started @ concat (map (HandleRPC X m ctx) evs) @ HandleRPC X m ctx (End err b e)"
    by (simp add: run_call_def tag)
  have A: "(case grpc_Filter (config m) of None \<Rightarrow> True | Some f \<Rightarrow> f info) \<longrightarrow>
           count_list (run_call X m sid ctx0 info (evs @ [End err b e])) (SpanEnd sid) = 1
         \<and> samples_of dn
              (run_call X m sid ctx0 info (evs @ [End err b e])) = [ElapsedMs (e - b)]"
  proof
    assume "case grpc_Filter (config m) of None \<Rightarrow> True | Some f \<Rightarrow> f info"
    with rf have r: "record_flag g" by simp
    have c0: "count_list (concat (map (HandleRPC X m ctx) evs)) (SpanEnd sid) = 0"
      using no_end by (intro count_list_concat_0 HandleRPC_non_End_recording(1) [OF g r _ m dn]) simp
    have s0: "samples_of dn (concat (map (HandleRPC X m ctx) evs)) = []"
      using no_end by (intro samples_of_concat_Nil HandleRPC_non_End_recording(2) [OF g r _ m dn]) simp
    show "count_list (run_call X m sid ctx0 info (evs @ [End err b e])) (SpanEnd sid) = 1
         \<and> samples_of dn
              (run_call X m sid ctx0 info (evs @ [End err b e])) = [ElapsedMs (e - b)]"
      by (simp add: run st samples_of_append c0 s0
            HandleRPC_End_counts [OF g r sp m created dn])
  qed
  have B: "\<not> (case grpc_Filter (config m) of None \<Rightarrow> True | Some f \<Rightarrow> f info) \<longrightarrow>
           filter is_sample (run_call X m sid ctx0 info (evs @ [End err b e])) = []"
  proof
    assume "\<not> (case grpc_Filter (config m) of None \<Rightarrow> True | Some f \<Rightarrow> f info)"
    with rf have r: "\<not> record_flag g" by simp
    have "concat (map (HandleRPC X m ctx) evs) = []"
      by (simp add: HandleRPC_not_recording [OF g r])
    then show "filter is_sample (run_call X m sid ctx0 info (evs @ [End err b e])) = []"
      by (simp add: run st HandleRPC_not_recording [OF g r])
  qed
  from A B show ?thesis by blast
qed

theorem C2_span_closed_once_when_recording_witness:
  "count_list (run_call example_helpers example_server 0 background example_info
       ([Begin, InPayload 7, OutPayload 9] @ [End None 0 1000000])) (SpanEnd 0) = 1
   \<and> samples_of ''rpc.server.duration''
       (run_call example_helpers example_server 0 background example_info
          ([Begin, InPayload 7, OutPayload 9] @ [End None 0 1000000])) = [ElapsedMs 1000000]
   \<and> filter is_sample (run_call example_helpers example_server_filtered 0 background example_info
       ([Begin, InPayload 7, OutPayload 9] @ [End None 0 1000000])) = []"
proof -
  have m: "example_server = fst (TracingMiddleware example_globals RoleServer [])"
    by (simp add: example_server_def)
  have mf: "example_server_filtered
              = fst (TracingMiddleware example_globals RoleServer [otelgrpc_WithFilter (Some reject_all)])"
    by (simp add: example_server_filtered_def)
  have cr: "rpcDuration (config example_server) \<noteq> NoopInstrument"
    by code_simp
  have crf: "rpcDuration (config example_server_filtered) \<noteq> NoopInstrument"
    by code_simp
  have ne: "\<forall>ev \<in> set [Begin, InPayload 7, OutPayload 9]. \<not> is_End ev"
    by simp
  have dn: "''rpc.server.duration'' = ''rpc.'' @ Role_String RoleServer @ ''.duration''"
    by simp
  have f: "case grpc_Filter (config example_server) of None \<Rightarrow> True | Some f \<Rightarrow> f example_info"
    by code_simp
  have ff: "\<not> (case grpc_Filter (config example_server_filtered) of None \<Rightarrow> True | Some f \<Rightarrow> f example_info)"
    by code_simp
  show ?thesis
    using C2_span_closed_once_when_recording [OF m cr ne dn, of example_info example_helpers 0 background None 0 1000000]
          C2_span_closed_once_when_recording [OF mf crf ne dn, of example_info example_helpers 0 background None 0 1000000]
          f ff
    by simp
qed

text \<open>
  C3. The claim: on the server role, a terminal error with a code among Unknown,
  DeadlineExceeded, Unimplemented, Internal, Unavailable and DataLoss sets the span status
  to Error with the status message; any other terminal error leaves it Unset; a nil error
  gives the status-code attribute the value OK.
  As stated of every call it fails on a call the filter rejected, where the end hook
  returns before it classifies the error.
\<close>

theorem C3_filtered_call_counterexample:
  "role example_server_filtered = RoleServer
   \<and> ctx_span example_tagged_filtered = Some 0
   \<and> Code example_internal = grpcCodes_Internal
   \<and> status_calls 0 (HandleRPC example_helpers example_server_filtered example_tagged_filtered
         (End (Some example_internal) 0 1000000)) \<noteq> [(codes_Error, Message example_internal)]"
  by code_simp

text \<open>
  C3, amended. On the server role, for an end hook that is not skipped (the context has no
  Call Context, or its record flag is true) and a context carrying span \<open>sid\<close>: a terminal
  error whose code is among the six makes the one status call \<open>SetStatus(Error, message)\<close>;
  any other terminal error makes the one status call \<open>SetStatus(Unset, "")\<close>, which sets no
  error; a nil error makes no status call, and the attribute \<open>rpc.grpc.status_code = OK\<close> is
  set on the span and is part of the attributes of every metric sample of the hook.
\<close>

theorem C3_server_status_classifier:
  assumes server: "role m = RoleServer"
      and sp: "ctx_span ctx = Some sid"
      and rec: "case ctx_gctx ctx of None \<Rightarrow> True | Some g \<Rightarrow> record_flag g"
  shows "(Code s \<in> {grpcCodes_Unknown, grpcCodes_DeadlineExceeded, grpcCodes_Unimplemented,
                     grpcCodes_Internal, grpcCodes_Unavailable, grpcCodes_DataLoss}
            \<longrightarrow> status_calls sid (HandleRPC X m ctx (End (Some s) b e)) = [(codes_Error, Message s)])
       \<and> (Code s \<notin> {grpcCodes_Unknown, grpcCodes_DeadlineExceeded, grpcCodes_Unimplemented,
                     grpcCodes_Internal, grpcCodes_Unavailable, grpcCodes_DataLoss}
            \<longrightarrow> status_calls sid (HandleRPC X m ctx (End (Some s) b e)) = [(codes_Unset, [])])
       \<and> status_calls sid (HandleRPC X m ctx (End None b e)) = []
       \<and> attribute_calls sid (HandleRPC X m ctx (End None b e))
            = [(GRPCStatusCodeKey, IntValue (int grpcCodes_OK))]
       \<and> (\<forall>ev \<in> set (HandleRPC X m ctx (End None b e)).
             is_sample ev \<longrightarrow> (GRPCStatusCodeKey, IntValue (int grpcCodes_OK)) \<in> set (effect_attrs ev))"
proof -
  have some: "status_calls sid (HandleRPC X m ctx (End (Some s) b e))
             = [(fst (serverStatus s), snd (serverStatus s))]"
    using HandleRPC_End_prefix [OF rec, of X m "Some s" b e]
    by (auto simp add: server sp status_calls_append status_calls_simps split: option.splits)
  from HandleRPC_End_prefix [OF rec, of X m None b e] obtain attrs where
    none: "HandleRPC X m ctx (End None b e) =
       span_SetAttributes (ctx_span ctx) [end_status_attr None]
       @ span_End (ctx_span ctx)
       @ instrument_Record (rpcDuration (config m)) (ElapsedMs (e - b)) (attrs @ [end_status_attr None])
       @ (case ctx_gctx ctx of
            Some g \<Rightarrow> instrument_Record (rpcRequestsPerRPC (config m)) (Int64 (messagesReceived g)) (attrs @ [end_status_attr None])
                     @ instrument_Record (rpcResponsesPerRPC (config m)) (Int64 (messagesSent g)) (attrs @ [end_status_attr None])
          | None \<Rightarrow> [])"
    by auto
  have ok: "end_status_attr None = (GRPCStatusCodeKey, IntValue (int grpcCodes_OK))"
    by (simp add: end_status_attr_def)
  have a: "status_calls sid (HandleRPC X m ctx (End None b e)) = []"
    by (simp add: none status_calls_append status_calls_simps split: option.splits)
  have b: "attribute_calls sid (HandleRPC X m ctx (End None b e))
            = [(GRPCStatusCodeKey, IntValue (int grpcCodes_OK))]"
    by (simp add: none sp ok attribute_calls_append attribute_calls_simps split: option.splits)
  have c: "\<forall>ev \<in> set (HandleRPC X m ctx (End None b e)).
             is_sample ev \<longrightarrow> (GRPCStatusCodeKey, IntValue (int grpcCodes_OK)) \<in> set (effect_attrs ev)"
    by (auto simp add: none ok dest: no_sample_in_span_calls sample_in_instrument_Record split: option.splits)
  show ?thesis
    using some a b c serverStatus_cases [of s] by simp
qed


theorem C3_server_status_classifier_witness:
  "role example_server = RoleServer \<and> ctx_span example_tagged = Some 0
   \<and> status_calls 0 (HandleRPC example_helpers example_server example_tagged
         (End (Some example_internal) 0 1000000)) = [(codes_Error, ''boom'')]
   \<and> status_calls 0 (HandleRPC example_helpers example_server example_tagged
         (End (Some example_not_found) 0 1000000)) = [(codes_Unset, [])]
   \<and> attribute_calls 0 (HandleRPC example_helpers example_server example_tagged (End None 0 1000000))
        = [(''rpc.grpc.status_code'', IntValue 0)]"
proof -
  have h1: "role example_server = RoleServer"
    by (simp add: example_server_def TracingMiddleware_fst)
  have h2: "ctx_span example_tagged = Some 0"
    by code_simp
  have h3: "case ctx_gctx example_tagged of None \<Rightarrow> True | Some g \<Rightarrow> record_flag g"
    by code_simp
  have c1: "Code example_internal \<in> {grpcCodes_Unknown, grpcCodes_DeadlineExceeded,
              grpcCodes_Unimplemented, grpcCodes_Internal, grpcCodes_Unavailable, grpcCodes_DataLoss}"
    by (simp add: example_internal_def)
  have c2: "Code example_not_found \<notin> {grpcCodes_Unknown, grpcCodes_DeadlineExceeded,
              grpcCodes_Unimplemented, grpcCodes_Internal, grpcCodes_Unavailable, grpcCodes_DataLoss}"
    by (simp add: example_not_found_def grpcCodes_Unknown_def grpcCodes_DeadlineExceeded_def
          grpcCodes_Unimplemented_def grpcCodes_Internal_def grpcCodes_Unavailable_def
          grpcCodes_DataLoss_def)
  show ?thesis
    using C3_server_status_classifier [OF h1 h2 h3, of example_internal example_helpers 0 1000000]
          C3_server_status_classifier [OF h1 h2 h3, of example_not_found example_helpers 0 1000000]
          h1 h2 c1 c2
    by (simp add: example_internal_def example_not_found_def GRPCStatusCodeKey_def grpcCodes_OK_def)
qed

text \<open>
  C5. The claim: a hook invoked with a context that carries no Call Context is a no-op:
  no metric sample, no change to the span, no error.
  It fails at the end hook: without a Call Context the hook still sets the status-code
  attribute, ends the span and records the duration.
\<close>

theorem C5_end_hook_counterexample:
  "ctx_gctx example_untagged = None
   \<and> HandleRPC example_helpers example_server example_untagged (End None 0 1000000)
       = [SpanSetAttributes 0 [(''rpc.grpc.status_code'', IntValue 0)], SpanEnd 0,
          Record ''rpc.server.duration'' (ElapsedMs 1000000) [(''rpc.grpc.status_code'', IntValue 0)]]
   \<and> HandleRPC example_helpers example_server example_untagged (End None 0 1000000) \<noteq> []"
  by code_simp

text \<open>
  C5, amended. With no Call Context in the context, the begin, payload, trailer and
  in-header events do nothing, so no request-size, response-size, requests-per-rpc or
  responses-per-rpc sample is recorded; the out-header event sets the network transport
  attribute when the context has a peer; the end hook sets the span status as for any call,
  sets the status-code attribute, ends the span and records one duration sample whose only
  attribute is the status code. The hook has no error result.
\<close>

theorem C5_no_call_context:
  assumes "ctx_gctx ctx = None"
  shows "HandleRPC X m ctx Begin = []
       \<and> HandleRPC X m ctx (InPayload n) = []
       \<and> HandleRPC X m ctx (OutPayload n) = []
       \<and> HandleRPC X m ctx OutTrailer = []
       \<and> HandleRPC X m ctx InHeader = []
       \<and> HandleRPC X m ctx InTrailer = []
       \<and> HandleRPC X m ctx OutHeader =
           (case ctx_peer ctx of
              Some network \<Rightarrow> span_SetAttributes (ctx_span ctx) [NetTransport X network]
            | None \<Rightarrow> [])
       \<and> HandleRPC X m ctx (End err b e) =
           (case err of
              Some s \<Rightarrow> (if isServer (role m)
                         then span_SetStatus (ctx_span ctx) (fst (serverStatus s)) (snd (serverStatus s))
                         else span_SetStatus (ctx_span ctx) codes_Error (Message s))
            | None \<Rightarrow> [])
           @ span_SetAttributes (ctx_span ctx)
               [(GRPCStatusCodeKey, IntValue (int (case err of Some s \<Rightarrow> Code s | None \<Rightarrow> grpcCodes_OK)))]
           @ span_End (ctx_span ctx)
           @ instrument_Record (rpcDuration (config m)) (ElapsedMs (e - b))
               [(GRPCStatusCodeKey, IntValue (int (case err of Some s \<Rightarrow> Code s | None \<Rightarrow> grpcCodes_OK)))]"
  using HandleRPC_other_no_gctx [OF assms, of X m n] HandleRPC_End_no_gctx [OF assms, of X m err b e]
  by (simp add: end_status_attr_def)

theorem C5_no_call_context_witness:
  "ctx_gctx example_untagged = None
   \<and> HandleRPC example_helpers example_server example_untagged (InPayload 7) = []
   \<and> HandleRPC example_helpers example_server example_untagged (OutPayload 9) = []
   \<and> HandleRPC example_helpers example_server example_untagged (End None 0 1000000)
       = [SpanSetAttributes 0 [(''rpc.grpc.status_code'', IntValue 0)], SpanEnd 0]
         @ instrument_Record (rpcDuration (config example_server)) (ElapsedMs 1000000)
             [(''rpc.grpc.status_code'', IntValue 0)]"
proof -
  have h: "ctx_gctx example_untagged = None"
    by (simp add: example_untagged_def background_def)
  have sp: "ctx_span example_untagged = Some 0"
    by (simp add: example_untagged_def)
  show ?thesis
    using C5_no_call_context [OF h, of example_helpers example_server 7 None 0 1000000]
          C5_no_call_context [OF h, of example_helpers example_server 9 None 0 1000000] h
    by (simp add: sp span_SetAttributes_def span_End_def GRPCStatusCodeKey_def grpcCodes_OK_def)
qed

section \<open>Lemmas on the gin middleware and the instruments\<close>

lemma filters_pass_iff: "filters_pass fs r = (\<forall>f \<in> set fs. f r)"
  by (induction fs) simp_all

lemma create_instrument_creates:
  "filter is_MeterCreate (snd (create_instrument meter k n u)) = [MeterCreate k n u]"
  by (simp add: create_instrument_def split: meter_result.splits)

lemma newConfig_effects:
  "snd (newConfig G r opts) =
     (let meter = (case grpc_MeterProvider (foldl (\<lambda>c opt. otelgrpc_apply opt c) otelgrpc_zero_config opts) of
                     None \<Rightarrow> GetMeterProvider G | Some p \<Rightarrow> p)
      in snd (create_instrument meter Float64Histogram (''rpc.'' @ Role_String r @ ''.duration'') ''ms'')
       @ snd (create_instrument meter Int64Histogram (''rpc.'' @ Role_String r @ ''.request.size'') ''By'')
       @ snd (create_instrument meter Int64Histogram (''rpc.'' @ Role_String r @ ''.response.size'') ''By'')
       @ snd (create_instrument meter Int64Histogram (''rpc.'' @ Role_String r @ ''.requests_per_rpc'') ''{count}'')
       @ snd (create_instrument meter Int64Histogram (''rpc.'' @ Role_String r @ ''.responses_per_rpc'') ''{count}''))"
  by (simp add: newConfig_def Let_def split_beta)

lemma Tracing_effects:
  "snd (Tracing G serviceName opts) =
       snd (create_instrument (GetMeterProvider G) Float64Histogram (''http.'' @ otelgin_role @ ''.request.duration'') ''ms'')
     @ snd (create_instrument (GetMeterProvider G) Int64UpDownCounter (''http.'' @ otelgin_role @ ''.request.body.size'') ''By'')
     @ snd (create_instrument (GetMeterProvider G) Int64UpDownCounter (''http.'' @ otelgin_role @ ''.response.body.size'') ''By'')
     @ snd (create_instrument (GetMeterProvider G) Int64UpDownCounter (''http.'' @ otelgin_role @ ''.active_requests'') ''{count}'')"
  by (simp add: Tracing_def Let_def split_beta)

lemma is_SpanStart_instrument:
  "filter is_SpanStart (instrument_Add i w a) = []"
  "filter is_SpanStart (instrument_Record i v a) = []"
  by (simp_all add: instrument_Add_def instrument_Record_def split: instrument.splits)

lemma sample_in_instrument_Add:
  "ev \<in> set (instrument_Add ins w a) \<Longrightarrow> effect_attrs ev = a"
  by (auto simp add: instrument_Add_def split: instrument.splits)

section \<open>Claims on the instruments and the gin middleware\<close>

text \<open>
  C4. The claim: for each role the middlewares create their instruments under the names
  \<open>{protocol}.{R}.request.duration\<close>, \<open>{protocol}.{R}.request.body.size\<close>,
  \<open>{protocol}.{R}.response.body.size\<close>, \<open>http.{R}.active_requests\<close> and
  \<open>rpc.{R}.requests_per_rpc\<close>, \<open>rpc.{R}.responses_per_rpc\<close>.
  The stats handler asks the meter for no instrument named \<open>rpc.server.request.duration\<close>
  or \<open>rpc.server.request.body.size\<close>; its duration and size instruments have other names.
\<close>

theorem C4_claimed_names_counterexample:
  "MeterCreate Float64Histogram ''rpc.server.request.duration'' ''ms''
      \<notin> set (snd (newConfig example_globals RoleServer []))
   \<and> MeterCreate Int64Histogram ''rpc.server.request.body.size'' ''By''
      \<notin> set (snd (newConfig example_globals RoleServer []))
   \<and> snd (newConfig example_globals RoleServer []) =
     [MeterCreate Float64Histogram ''rpc.server.duration'' ''ms'',
      MeterCreate Int64Histogram ''rpc.server.request.size'' ''By'',
      MeterCreate Int64Histogram ''rpc.server.response.size'' ''By'',
      MeterCreate Int64Histogram ''rpc.server.requests_per_rpc'' ''{count}'',
      MeterCreate Int64Histogram ''rpc.server.responses_per_rpc'' ''{count}'']"
  by code_simp

text \<open>
  C4, amended. Whatever the options and the meter's answers, \<open>newConfig\<close> for role \<open>R\<close>
  requests exactly \<open>rpc.R.duration\<close> (float64 histogram, ms), \<open>rpc.R.request.size\<close> and
  \<open>rpc.R.response.size\<close> (int64 histograms, By), \<open>rpc.R.requests_per_rpc\<close> and
  \<open>rpc.R.responses_per_rpc\<close> (int64 histograms, {count}); the gin middleware, whose role is
  the constant \<open>server\<close>, requests exactly \<open>http.server.request.duration\<close> (float64
  histogram, ms), \<open>http.server.request.body.size\<close> and \<open>http.server.response.body.size\<close>
  (up-down counters, By) and \<open>http.server.active_requests\<close> (up-down counter, {count}).
\<close>

theorem C4_instrument_names:
  "filter is_MeterCreate (snd (newConfig G r opts)) =
     [MeterCreate Float64Histogram (''rpc.'' @ Role_String r @ ''.duration'') ''ms'',
      MeterCreate Int64Histogram (''rpc.'' @ Role_String r @ ''.request.size'') ''By'',
      MeterCreate Int64Histogram (''rpc.'' @ Role_String r @ ''.response.size'') ''By'',
      MeterCreate Int64Histogram (''rpc.'' @ Role_String r @ ''.requests_per_rpc'') ''{count}'',
      MeterCreate Int64Histogram (''rpc.'' @ Role_String r @ ''.responses_per_rpc'') ''{count}'']
   \<and> filter is_MeterCreate (snd (Tracing G serviceName gopts)) =
     [MeterCreate Float64Histogram ''http.server.request.duration'' ''ms'',
      MeterCreate Int64UpDownCounter ''http.server.request.body.size'' ''By'',
      MeterCreate Int64UpDownCounter ''http.server.response.body.size'' ''By'',
      MeterCreate Int64UpDownCounter ''http.server.active_requests'' ''{count}'']"
  by (simp add: newConfig_effects Tracing_effects Let_def create_instrument_creates otelgin_role_def)

text \<open>
  C6. A request that some configured filter rejects is handed to the next handler as it
  is, and the middleware makes no telemetry call for it: no span is started and no
  duration, size or active-request sample is recorded.
\<close>

theorem C6_rejected_request_not_instrumented:
  assumes "f \<in> set (Filters cfg)" and "\<not> f (Request c)"
  shows "Tracing_handler X serviceName cfg next sid elapsed c = (Next next c, [])"
  using assms by (auto simp add: Tracing_handler_def filters_pass_iff)

theorem C6_rejected_request_not_instrumented_witness:
  "reject_request \<in> set (Filters example_gin_config_filtered)
   \<and> \<not> reject_request (Request (example_gin ''/version'' (Reader [])))
   \<and> Tracing_handler example_helpers ''kgsotel-http-example'' example_gin_config_filtered
        example_next 0 1000000 (example_gin ''/version'' (Reader []))
      = (example_next (example_gin ''/version'' (Reader [])), [])"
proof -
  have h1: "reject_request \<in> set (Filters example_gin_config_filtered)"
    by (simp add: example_gin_config_filtered_def Tracing_def Let_def otelgin_zero_config_def
          split: prod.splits)
  have h2: "\<not> reject_request (Request (example_gin ''/version'' (Reader [])))"
    by (simp add: reject_request_def)
  have n: "Next example_next (example_gin ''/version'' (Reader []))
             = example_next (example_gin ''/version'' (Reader []))"
    by (simp add: Next_def example_gin_def)
  show ?thesis
    using C6_rejected_request_not_instrumented [OF h1 h2, of example_helpers
            "''kgsotel-http-example''" example_next 0 1000000] h1 h2 n
    by simp
qed

text \<open>
  C8. For an admitted request with no span-name formatter configured and no matched route
  (empty full path), the one span started is named \<open>HTTP {method} route not found\<close>, and
  its attributes are those of \<open>HTTPServerRequest\<close> alone. No attribute with key
  \<open>http.route\<close> is carried by any telemetry call of the middleware, span or metric, given
  that the two attribute builders of \<open>semconvutil\<close> (not in the tree) produce none.
\<close>

theorem C8_route_not_found_span_name:
  assumes pass: "filters_pass (Filters cfg) (Request c)"
      and nofmt: "SpanNameFormatter cfg = None"
      and noroute: "FullPath c = []"
      and h1: "''http.route'' \<notin> fst ` set (HTTPServerRequest X serviceName (Request c))"
      and h2: "''http.route'' \<notin> fst ` set (HTTPServerRequestMetrics X serviceName (Request c))"
  shows "filter is_SpanStart (snd (Tracing_handler X serviceName cfg next sid elapsed c))
           = [SpanStart sid (''HTTP '' @ Method (Request c) @ '' route not found'') SpanKindServer
                (HTTPServerRequest X serviceName (Request c))]
       \<and> (\<forall>ev \<in> set (snd (Tracing_handler X serviceName cfg next sid elapsed c)).
             ''http.route'' \<notin> fst ` set (effect_attrs ev))"
proof -
  have a: "filter is_SpanStart (snd (Tracing_handler X serviceName cfg next sid elapsed c))
           = [SpanStart sid (''HTTP '' @ Method (Request c) @ '' route not found'') SpanKindServer
                (HTTPServerRequest X serviceName (Request c))]"
    using pass nofmt noroute
    by (simp add: Tracing_handler_def Let_def split_beta is_SpanStart_instrument)
  have b: "\<forall>ev \<in> set (snd (Tracing_handler X serviceName cfg next sid elapsed c)).
             ''http.route'' \<notin> fst ` set (effect_attrs ev)"
    using pass nofmt noroute h1 h2
    by (auto simp add: Tracing_handler_def Let_def split_beta HTTPStatusCode_def
          dest!: sample_in_instrument_Add sample_in_instrument_Record split: if_splits)
  from a b show ?thesis by simp
qed

theorem C8_route_not_found_span_name_witness:
  "filters_pass (Filters example_gin_config) (Request (example_gin [] (Reader [])))
   \<and> SpanNameFormatter example_gin_config = None
   \<and> FullPath (example_gin [] (Reader [])) = []
   \<and> filter is_SpanStart (snd (Tracing_handler example_helpers ''kgsotel-http-example''
         example_gin_config example_next 0 1000000 (example_gin [] (Reader []))))
       = [SpanStart 0 ''HTTP GET route not found'' SpanKindServer [(''http.method'', StringValue ''GET'')]]"
proof -
  have p: "filters_pass (Filters example_gin_config) (Request (example_gin [] (Reader [])))"
    by (simp add: example_gin_config_def Tracing_def Let_def split_beta otelgin_zero_config_def)
  have f: "SpanNameFormatter example_gin_config = None"
    by (simp add: example_gin_config_def Tracing_def Let_def split_beta otelgin_zero_config_def)
  have r: "FullPath (example_gin [] (Reader [])) = []"
    by (simp add: example_gin_def)
  have h1: "''http.route'' \<notin> fst ` set (HTTPServerRequest example_helpers ''kgsotel-http-example''
              (Request (example_gin [] (Reader []))))"
    by (simp add: example_helpers_def)
  have h2: "''http.route'' \<notin> fst ` set (HTTPServerRequestMetrics example_helpers ''kgsotel-http-example''
              (Request (example_gin [] (Reader []))))"
    by (simp add: example_helpers_def)
  show ?thesis
    using C8_route_not_found_span_name [OF p f r h1 h2, of example_next 0 1000000] p f r
    by (simp add: example_gin_def example_helpers_def)
qed

text \<open>
  C9. For an admitted request whose body cannot be read, the handler leaves the context
  aborted with status 500 and the JSON body \<open>{"error":"failed to read request body"}\<close>,
  and the rest of the handler chain is not run: the result is the same for every \<open>next\<close>.
  This is the only way the middleware shows to the user: when the body can be read (and the
  context was not aborted on entry) the response writer and the abort flag the handler
  leaves are those of the downstream chain, run on the same method, header, body, writer,
  errors and route; this holds for every configuration, also one whose instruments were
  replaced by no-op instruments after a failed creation. (A rejected request is passed
  through as in C6.)
\<close>

theorem C9_body_read_failure_aborts:
  assumes pass: "filters_pass (Filters cfg) (Request c)"
  shows "(Body (Request c) = ErrReader err \<longrightarrow>
            aborted (fst (Tracing_handler X serviceName cfg next sid elapsed c))
          \<and> w_Status (Writer (fst (Tracing_handler X serviceName cfg next sid elapsed c))) = 500
          \<and> w_Body (Writer (fst (Tracing_handler X serviceName cfg next sid elapsed c)))
              = w_Body (Writer c) @ failed_to_read_json
          \<and> (\<forall>next'. Tracing_handler X serviceName cfg next' sid elapsed c
                       = Tracing_handler X serviceName cfg next sid elapsed c))
       \<and> (Body (Request c) = Reader body \<and> \<not> aborted c \<longrightarrow>
            (\<exists>c3. Method (Request c3) = Method (Request c) \<and> Header (Request c3) = Header (Request c)
                \<and> Body (Request c3) = Reader body \<and> Writer c3 = Writer c \<and> Errors c3 = Errors c
                \<and> FullPath c3 = FullPath c \<and> \<not> aborted c3
                \<and> Writer (fst (Tracing_handler X serviceName cfg next sid elapsed c)) = Writer (next c3)
                \<and> aborted (fst (Tracing_handler X serviceName cfg next sid elapsed c)) = aborted (next c3)))"
proof -
  let ?c1 = "c\<lparr>Keys := (Keys c)(tracerKey \<mapsto> serviceName, meterKey \<mapsto> serviceName)\<rparr>"
  let ?ctx1 = "(Extract (gin_Propagator cfg) (req_Context (Request c)) (Header (Request c)))\<lparr>ctx_span := Some sid\<rparr>"
  let ?c2 = "?c1\<lparr>Request := (Request ?c1)\<lparr>req_Context := ?ctx1\<rparr>\<rparr>"
  have A: "Body (Request c) = ErrReader err \<longrightarrow>
            aborted (fst (Tracing_handler X serviceName cfg next sid elapsed c))
          \<and> w_Status (Writer (fst (Tracing_handler X serviceName cfg next sid elapsed c))) = 500
          \<and> w_Body (Writer (fst (Tracing_handler X serviceName cfg next sid elapsed c)))
              = w_Body (Writer c) @ failed_to_read_json
          \<and> (\<forall>next'. Tracing_handler X serviceName cfg next' sid elapsed c
                       = Tracing_handler X serviceName cfg next sid elapsed c)"
    using pass
    by (simp add: Tracing_handler_def Let_def split_beta calcReqSize_def ReadAll_def
          AbortWithStatusJSON_def Next_def StatusInternalServerError_def)
  have B: "Body (Request c) = Reader body \<and> \<not> aborted c \<longrightarrow>
            (\<exists>c3. Method (Request c3) = Method (Request c) \<and> Header (Request c3) = Header (Request c)
                \<and> Body (Request c3) = Reader body \<and> Writer c3 = Writer c \<and> Errors c3 = Errors c
                \<and> FullPath c3 = FullPath c \<and> \<not> aborted c3
                \<and> Writer (fst (Tracing_handler X serviceName cfg next sid elapsed c)) = Writer (next c3)
                \<and> aborted (fst (Tracing_handler X serviceName cfg next sid elapsed c)) = aborted (next c3))"
  proof
    assume h: "Body (Request c) = Reader body \<and> \<not> aborted c"
    let ?c3 = "?c2\<lparr>Request := (Request ?c2)\<lparr>Body := Reader body\<rparr>\<rparr>"
    have c3: "snd (calcReqSize ?c2) = ?c3"
      using h by (simp add: calcReqSize_def ReadAll_def Let_def)
    have "Writer (fst (Tracing_handler X serviceName cfg next sid elapsed c)) = Writer (next ?c3)
        \<and> aborted (fst (Tracing_handler X serviceName cfg next sid elapsed c)) = aborted (next ?c3)"
      using pass h
      by (simp add: Tracing_handler_def Let_def split_beta calcReqSize_def ReadAll_def Next_def)
    then show "\<exists>c3. Method (Request c3) = Method (Request c) \<and> Header (Request c3) = Header (Request c)
                \<and> Body (Request c3) = Reader body \<and> Writer c3 = Writer c \<and> Errors c3 = Errors c
                \<and> FullPath c3 = FullPath c \<and> \<not> aborted c3
                \<and> Writer (fst (Tracing_handler X serviceName cfg next sid elapsed c)) = Writer (next c3)
                \<and> aborted (fst (Tracing_handler X serviceName cfg next sid elapsed c)) = aborted (next c3)"
      using h by (intro exI [of _ ?c3]) simp
  qed
  from A B show ?thesis by blast
qed


theorem C9_body_read_failure_aborts_witness:
  "filters_pass (Filters example_gin_config) (Request (example_gin ''/version'' (ErrReader ''unexpected EOF'')))
   \<and> aborted (fst (Tracing_handler example_helpers ''kgsotel-http-example'' example_gin_config
         example_next 0 1000000 (example_gin ''/version'' (ErrReader ''unexpected EOF''))))
   \<and> w_Status (Writer (fst (Tracing_handler example_helpers ''kgsotel-http-example'' example_gin_config
         example_next 0 1000000 (example_gin ''/version'' (ErrReader ''unexpected EOF''))))) = 500
   \<and> w_Body (Writer (fst (Tracing_handler example_helpers ''kgsotel-http-example'' example_gin_config
         example_next 0 1000000 (example_gin ''/version'' (ErrReader ''unexpected EOF'')))))
        = failed_to_read_json
   \<and> Writer (fst (Tracing_handler example_helpers ''kgsotel-http-example'' example_gin_config
         example_next 0 1000000 (example_gin ''/version'' (Reader ''hello''))))
        = \<lparr>w_Status = 200, w_Size = 2, w_Body = ''ok''\<rparr>"
proof -
  have p: "filters_pass (Filters example_gin_config) (Request (example_gin path body))" for path body
    by (simp add: example_gin_config_def Tracing_def Let_def split_beta otelgin_zero_config_def)
  have e: "Body (Request (example_gin ''/version'' (ErrReader ''unexpected EOF''))) = ErrReader ''unexpected EOF''"
    by (simp add: example_gin_def)
  have r: "Body (Request (example_gin ''/version'' (Reader ''hello''))) = Reader ''hello''
           \<and> \<not> aborted (example_gin ''/version'' (Reader ''hello''))"
    by (simp add: example_gin_def)
  have w: "w_Body (Writer (example_gin ''/version'' (ErrReader ''unexpected EOF''))) = []"
    by (simp add: example_gin_def)
  have n: "Writer (example_next c3) = \<lparr>w_Status = 200, w_Size = 2, w_Body = ''ok''\<rparr>" for c3
    by (simp add: example_next_def)
  from C9_body_read_failure_aborts [OF p [of "''/version''" "ErrReader ''unexpected EOF''"],
         where err = "''unexpected EOF''" and X = example_helpers
         and serviceName = "''kgsotel-http-example''" and ?next = example_next and sid = 0
         and elapsed = 1000000] e w
  have A: "aborted (fst (Tracing_handler example_helpers ''kgsotel-http-example'' example_gin_config
         example_next 0 1000000 (example_gin ''/version'' (ErrReader ''unexpected EOF''))))
   \<and> w_Status (Writer (fst (Tracing_handler example_helpers ''kgsotel-http-example'' example_gin_config
         example_next 0 1000000 (example_gin ''/version'' (ErrReader ''unexpected EOF''))))) = 500
   \<and> w_Body (Writer (fst (Tracing_handler example_helpers ''kgsotel-http-example'' example_gin_config
         example_next 0 1000000 (example_gin ''/version'' (ErrReader ''unexpected EOF'')))))
        = failed_to_read_json"
    by simp
  from C9_body_read_failure_aborts [OF p [of "''/version''" "Reader ''hello''"],
         where X = example_helpers
         and serviceName = "''kgsotel-http-example''" and ?next = example_next and sid = 0
         and elapsed = 1000000 and body = "''hello''"] r
  have B: "Writer (fst (Tracing_handler example_helpers ''kgsotel-http-example'' example_gin_config
         example_next 0 1000000 (example_gin ''/version'' (Reader ''hello''))))
        = \<lparr>w_Status = 200, w_Size = 2, w_Body = ''ok''\<rparr>"
    by (auto simp add: n)
  from p A B show ?thesis by simp
qed

text \<open>
  C10. \<open>WithGinFilter\<close> appends its filters to \<open>GinFilters\<close> and changes no request filter;
  the handler never reads \<open>GinFilters\<close>: replacing the list in a configuration, or adding
  a \<open>WithGinFilter\<close> option to the options of \<open>Tracing\<close>, leaves the resulting context
  and the telemetry calls of every request unchanged.
\<close>

theorem C10_gin_filters_never_evaluated:
  "GinFilters (otelgin_apply (otelgin_WithGinFilter fs) cfg) = GinFilters cfg @ fs
   \<and> Filters (otelgin_apply (otelgin_WithGinFilter fs) cfg) = Filters cfg
   \<and> Tracing_handler X serviceName (cfg\<lparr>GinFilters := gs\<rparr>) next sid elapsed c
       = Tracing_handler X serviceName cfg next sid elapsed c
   \<and> Tracing_handler X serviceName (fst (Tracing G serviceName (opts @ [otelgin_WithGinFilter fs]))) next sid elapsed c
       = Tracing_handler X serviceName (fst (Tracing G serviceName opts)) next sid elapsed c"
proof -
  have a: "Tracing_handler X serviceName (cfg\<lparr>GinFilters := gs\<rparr>) next sid elapsed c
       = Tracing_handler X serviceName cfg next sid elapsed c" for cfg gs
    by (simp add: Tracing_handler_def gin_Propagator_def)
  have b: "fst (Tracing G serviceName (opts @ [otelgin_WithGinFilter fs]))
             = (fst (Tracing G serviceName opts))\<lparr>GinFilters := GinFilters (fst (Tracing G serviceName opts)) @ fs\<rparr>"
    by (simp add: Tracing_def Let_def split_beta)
  show ?thesis
    by (simp add: a b)
qed

end
